theory Spec2Isabelle
  imports Complex_Main "HOL-Library.Multiset"
begin

section \<open>JavaScript values used by the slideshow\<close>

text \<open>
  Exceptions are values: a function of the source that can throw (or an awaited promise
  that can reject) returns \<open>exn + 'a\<close>, with \<open>Inl\<close> the thrown value. Each
  thrown value carries its message.
\<close>

datatype exn =
    NetworkError string
  | SyntaxError string
  | TypeError string
  | SecurityError string
  | QuotaExceededError string
  | Error string

text \<open>\<open>err.message\<close>.\<close>

fun message :: "exn \<Rightarrow> string" where
  "message (NetworkError m) = m"
| "message (SyntaxError m) = m"
| "message (TypeError m) = m"
| "message (SecurityError m) = m"
| "message (QuotaExceededError m) = m"
| "message (Error m) = m"

text \<open>
  Truthiness, as \<open>!x\<close>, \<open>x && y\<close> and \<open>x || y\<close> test it. An optional field is
  an \<open>option\<close> (\<open>None\<close> is \<open>undefined\<close> or \<open>null\<close>); the empty string and the
  number zero are falsy as well.
\<close>

definition truthyStr :: "string option \<Rightarrow> bool" where
  "truthyStr v = (case v of None \<Rightarrow> False | Some s \<Rightarrow> s \<noteq> [])"

definition truthyNum :: "real option \<Rightarrow> bool" where
  "truthyNum v = (case v of None \<Rightarrow> False | Some r \<Rightarrow> r \<noteq> 0)"

text \<open>\<open>a || null\<close> on an optional string or number: a falsy value becomes \<open>null\<close>.\<close>

definition orNullStr :: "string option \<Rightarrow> string option" where
  "orNullStr v = (if truthyStr v then v else None)"

definition orNullNum :: "real option \<Rightarrow> real option" where
  "orNullNum v = (if truthyNum v then v else None)"

section \<open>The metadata record (utils/exifUtils.js)\<close>

text \<open>
  \<open>locationName\<close> is the one property that \<open>extractExifData\<close> adds after building
  the object: it is absent when no lookup was attempted, \<open>null\<close> when the lookup gave
  nothing, and a string otherwise.
\<close>

datatype locationField = LocAbsent | LocNull | LocName string

text \<open>The field \<open>make\<close> is written \<open>make'\<close>: the plain name is taken by the record package.\<close>

record MetadataRecord =
  dateTime :: "string option"
  latitude :: "real option"
  longitude :: "real option"
  altitude :: "real option"
  make' :: "string option"
  model :: "string option"
  lensModel :: "string option"
  fNumber :: "real option"
  exposureTime :: "string option"
  iso :: "real option"
  focalLength :: "real option"
  width :: "real option"
  height :: "real option"
  orientation :: "real option"
  locationName :: locationField

section \<open>Metadata extraction (utils/exifUtils.js, src/unnamed/part_001)\<close>

text \<open>
  What \<open>exifr.parse\<close> returns for the picked tags, typed as the library delivers them:
  text tags as strings, numeric tags as numbers, dates as time stamps. A numeric tag is
  \<open>None\<close> when the image lacks it or when its value is \<open>NaN\<close>: the code only
  tests these tags for truthiness, which \<open>undefined\<close> and \<open>NaN\<close> fail alike.
  \<open>tagLatitude\<close> and \<open>tagLongitude\<close> are the properties \<open>exif.latitude\<close> and
  \<open>exif.longitude\<close>.
\<close>

record exifTags =
  DateTimeOriginal :: "string option"
  DateTime :: "string option"
  CreateDate :: "string option"
  tagLatitude :: "real option"
  tagLongitude :: "real option"
  GPSAltitude :: "real option"
  Make :: "string option"
  Model :: "string option"
  LensModel :: "string option"
  FNumber :: "real option"
  ExposureTime :: "real option"
  ISO :: "real option"
  FocalLength :: "real option"
  FocalLengthIn35mmFormat :: "real option"
  ImageWidth :: "real option"
  ImageHeight :: "real option"
  Orientation :: "real option"

text \<open>The response of the reverse-geocoding service, as far as the code reads it.\<close>

record address =
  city :: "string option"
  town :: "string option"
  village :: "string option"
  county :: "string option"
  state :: "string option"
  country :: "string option"

definition emptyAddress :: address where
  "emptyAddress =
     \<lparr>city = None, town = None, village = None, county = None, state = None,
      country = None\<rparr>"

text \<open>
  \<open>response.ok\<close> and the outcome of \<open>response.json()\<close>: a rejection, \<open>null\<close>
  (\<open>None\<close>), or an object with its \<open>address\<close> property (\<open>None\<close> when it is missing).
\<close>

record geoResponse =
  ok :: bool
  jsonResult :: "exn + address option option"

text \<open>
  The world outside the function: \<open>fetch(imageUrl)\<close> followed by
  \<open>response.blob()\<close>, \<open>exifr.parse\<close>, the \<open>fetch\<close> of the reverse-geocoding URL
  for a pair of coordinates, and the built-in operations of the language that the
  function calls: \<open>String.prototype.trim\<close> (which strips Unicode white space),
  \<open>toFixed(1)\<close>, \<open>Math.round(1 / x)\<close> in floating-point arithmetic, and the
  conversion of a number to a string in a template.
\<close>

record world =
  fetchBlob :: "string \<Rightarrow> exn + string"
  exifrParse :: "string \<Rightarrow> exn + exifTags option"
  fetchReverse :: "real \<Rightarrow> real \<Rightarrow> exn + geoResponse"
  trim :: "string \<Rightarrow> string"
  toFixed1 :: "real \<Rightarrow> string"
  roundedReciprocal :: "real \<Rightarrow> real"
  numberToString :: "real \<Rightarrow> string"

text \<open>\<open>x?.trim() || null\<close>.\<close>

definition trimOrNull :: "world \<Rightarrow> string option \<Rightarrow> string option" where
  "trimOrNull w v = orNullStr (map_option (trim w) v)"

text \<open>\<open>a || b\<close> on optional strings and numbers.\<close>

definition orStr :: "string option \<Rightarrow> string option \<Rightarrow> string option" where
  "orStr a b = (if truthyStr a then a else b)"

definition orNum :: "real option \<Rightarrow> real option \<Rightarrow> real option" where
  "orNum a b = (if truthyNum a then a else b)"

text \<open>\<open>formatExposureTime\<close>.\<close>

definition formatExposureTime :: "world \<Rightarrow> real option \<Rightarrow> string option" where
  "formatExposureTime w exposure =
     (case exposure of
        None \<Rightarrow> None
      | Some e \<Rightarrow>
          if e = 0 then None
          else if e \<ge> 1 then Some (toFixed1 w e)
          else
            let denominator = roundedReciprocal w e
            in Some (''1/'' @ numberToString w denominator))"

text \<open>\<open>parts.join(', ')\<close>.\<close>

fun join :: "string list \<Rightarrow> string" where
  "join [] = []"
| "join [p] = p"
| "join (p # q # ps) = p @ '', '' @ join (q # ps)"

text \<open>What \<open>if (x) parts.push(x)\<close> appends to \<open>parts\<close>.\<close>

definition pushed :: "string option \<Rightarrow> string list" where
  "pushed x = (case x of None \<Rightarrow> [] | Some s \<Rightarrow> if s = [] then [] else [s])"

text \<open>The \<open>try\<close> block of \<open>getLocationName\<close>; \<open>null\<close> is \<open>None\<close>.\<close>

definition getLocationNameTry :: "world \<Rightarrow> real \<Rightarrow> real \<Rightarrow> exn + string option" where
  "getLocationNameTry w lat lon =
     (case fetchReverse w lat lon of
        Inl err \<Rightarrow> Inl err
      | Inr response \<Rightarrow>
          if \<not> ok response then Inl (Error ''Geocoding request failed'')
          else
            (case jsonResult response of
               Inl err \<Rightarrow> Inl err
             | Inr None \<Rightarrow> Inl (TypeError ''Cannot read properties of null'')
             | Inr (Some data) \<Rightarrow>
                 let addr = (case data of None \<Rightarrow> emptyAddress | Some a \<Rightarrow> a);
                     parts1 =
                       (if truthyStr (city addr) then pushed (city addr)
                        else if truthyStr (town addr) then pushed (town addr)
                        else if truthyStr (village addr) then pushed (village addr)
                        else if truthyStr (county addr) then pushed (county addr)
                        else []);
                     parts2 = parts1 @ pushed (state addr);
                     parts3 = parts2 @ pushed (country addr)
                 in Inr (if length parts3 > 0 then Some (join parts3) else None)))"

text \<open>\<open>getLocationName\<close>: the \<open>catch\<close> branch returns \<open>null\<close>.\<close>

definition getLocationName :: "world \<Rightarrow> real \<Rightarrow> real \<Rightarrow> exn + string option" where
  "getLocationName w lat lon =
     (case getLocationNameTry w lat lon of
        Inl err \<Rightarrow> Inr None
      | Inr name \<Rightarrow> Inr name)"

text \<open>The object literal \<open>formattedData\<close>.\<close>

definition formatted :: "world \<Rightarrow> exifTags \<Rightarrow> MetadataRecord" where
  "formatted w exif =
     \<lparr>dateTime = orNullStr (orStr (DateTimeOriginal exif) (orStr (DateTime exif) (CreateDate exif))),
      latitude = orNullNum (tagLatitude exif),
      longitude = orNullNum (tagLongitude exif),
      altitude = orNullNum (GPSAltitude exif),
      make' = trimOrNull w (Make exif),
      model = trimOrNull w (Model exif),
      lensModel = trimOrNull w (LensModel exif),
      fNumber = orNullNum (FNumber exif),
      exposureTime = orNullStr (formatExposureTime w (ExposureTime exif)),
      iso = orNullNum (ISO exif),
      focalLength = orNullNum (orNum (FocalLength exif) (FocalLengthIn35mmFormat exif)),
      width = orNullNum (ImageWidth exif),
      height = orNullNum (ImageHeight exif),
      orientation = orNullNum (Orientation exif),
      locationName = LocAbsent\<rparr>"

definition toLocationField :: "string option \<Rightarrow> locationField" where
  "toLocationField name = (case name of None \<Rightarrow> LocNull | Some n \<Rightarrow> LocName n)"

text \<open>
  The \<open>try\<close> block of \<open>extractExifData\<close>; \<open>null\<close> is \<open>None\<close>. The test
  \<open>formattedData.latitude && formattedData.longitude\<close> holds when both are numbers
  other than zero.
\<close>

definition extractExifDataTry :: "world \<Rightarrow> string \<Rightarrow> exn + MetadataRecord option" where
  "extractExifDataTry w imageUrl =
     (case fetchBlob w imageUrl of
        Inl err \<Rightarrow> Inl err
      | Inr blob \<Rightarrow>
          (case exifrParse w blob of
             Inl err \<Rightarrow> Inl err
           | Inr None \<Rightarrow> Inr None
           | Inr (Some exif) \<Rightarrow>
               let formattedData = formatted w exif
               in (case (latitude formattedData, longitude formattedData) of
                     (Some lat, Some lon) \<Rightarrow>
                       if lat \<noteq> 0 \<and> lon \<noteq> 0
                       then
                         (case getLocationName w lat lon of
                            Inr name \<Rightarrow>
                              Inr (Some (formattedData\<lparr>locationName := toLocationField name\<rparr>))
                          | Inl err \<Rightarrow>
                              Inr (Some (formattedData\<lparr>locationName := LocNull\<rparr>)))
                       else Inr (Some formattedData)
                   | _ \<Rightarrow> Inr (Some formattedData))))"

text \<open>\<open>extractExifData\<close>: the \<open>catch\<close> branch returns \<open>null\<close>.\<close>

definition extractExifData :: "world \<Rightarrow> string \<Rightarrow> exn + MetadataRecord option" where
  "extractExifData w imageUrl =
     (case extractExifDataTry w imageUrl of
        Inl err \<Rightarrow> Inr None
      | Inr r \<Rightarrow> Inr r)"


section \<open>The configuration object\<close>

text \<open>
  The shape of \<open>getDefaultConfig()\<close> and of \<open>DEFAULT_CONFIG\<close> in App.jsx. The fields
  that the code tests for presence are optional.
\<close>

record exifDisplayConfig =
  enabled :: bool
  showDateTime :: bool
  showLocation :: bool
  showCameraInfo :: bool
  position :: string
  autoHide :: bool
  autoHideDelay :: real

record config =
  s3Bucket :: "string option"
  s3Region :: "string option"
  s3Prefix :: "string option"
  displayDuration :: "real option"
  transitionEffect :: "string option"
  shuffleMode :: bool
  exifDisplay :: exifDisplayConfig

section \<open>The settings store (services/configService.js)\<close>

text \<open>
  A value produced by \<open>JSON.parse\<close>. An object is the list of its properties, each
  name once.
\<close>

datatype json =
    JNull
  | JBool bool
  | JNum real
  | JStr string
  | JArr "json list"
  | JObj "(string \<times> json) list"

text \<open>
  Reading the property \<open>version\<close> or \<open>data\<close> of a parsed value: a \<open>TypeError\<close> on
  \<open>null\<close>, the property (or \<open>undefined\<close>, here \<open>None\<close>) on an object, and
  \<open>undefined\<close> on a boolean, a number, a string or an array, which have no property
  of either name.
\<close>

fun getProp :: "json \<Rightarrow> string \<Rightarrow> exn + json option" where
  "getProp JNull k = Inl (TypeError ''Cannot read properties of null'')"
| "getProp (JObj kvs) k = Inr (map_of kvs k)"
| "getProp v k = Inr None"

fun truthyJson :: "json option \<Rightarrow> bool" where
  "truthyJson None = False"
| "truthyJson (Some JNull) = False"
| "truthyJson (Some (JBool b)) = b"
| "truthyJson (Some (JNum r)) = (r \<noteq> 0)"
| "truthyJson (Some (JStr s)) = (s \<noteq> [])"
| "truthyJson (Some (JArr vs)) = True"
| "truthyJson (Some (JObj kvs)) = True"

definition CONFIG_KEY :: string where
  "CONFIG_KEY = ''tv-slideshow-config''"

definition CONFIG_VERSION :: string where
  "CONFIG_VERSION = ''1.0''"

text \<open>
  The browser's \<open>localStorage\<close>: its entries, whether access to it is denied (then
  \<open>getItem\<close> and \<open>setItem\<close> throw), and whether its quota is exhausted (then
  \<open>setItem\<close> throws).
\<close>

record localStorage =
  items :: "string \<rightharpoonup> string"
  denied :: bool
  full :: bool

definition getItem :: "localStorage \<Rightarrow> string \<Rightarrow> exn + string option" where
  "getItem st k =
     (if denied st then Inl (SecurityError ''The operation is insecure.'')
      else Inr (items st k))"


text \<open>\<open>migrateConfig\<close>: \<open>oldConfig.data || oldConfig\<close>.\<close>

definition migrateConfig :: "json \<Rightarrow> exn + json" where
  "migrateConfig oldConfig =
     (case getProp oldConfig ''data'' of
        Inl err \<Rightarrow> Inl err
      | Inr d \<Rightarrow>
          (case d of
             Some v \<Rightarrow> if truthyJson d then Inr v else Inr oldConfig
           | None \<Rightarrow> Inr oldConfig))"

text \<open>
  The \<open>try\<close> block of \<open>loadConfig\<close>. \<open>JSON.parse\<close> is a parameter. The value
  returned is \<open>None\<close> for \<open>undefined\<close> and \<open>Some JNull\<close> for \<open>null\<close>.
\<close>

definition loadConfigTry ::
  "(string \<Rightarrow> exn + json) \<Rightarrow> localStorage \<Rightarrow> exn + json option" where
  "loadConfigTry parse st =
     (case getItem st CONFIG_KEY of
        Inl err \<Rightarrow> Inl err
      | Inr storedConfig \<Rightarrow>
          (case storedConfig of
             None \<Rightarrow> Inr (Some JNull)
           | Some stored \<Rightarrow>
               if stored = [] then Inr (Some JNull)
               else
                 (case parse stored of
                    Inl err \<Rightarrow> Inl err
                  | Inr config \<Rightarrow>
                      (case getProp config ''version'' of
                         Inl err \<Rightarrow> Inl err
                       | Inr v \<Rightarrow>
                           if v \<noteq> Some (JStr CONFIG_VERSION)
                           then (case migrateConfig config of
                                   Inl err \<Rightarrow> Inl err
                                 | Inr migrated \<Rightarrow> Inr (Some migrated))
                           else getProp config ''data''))))"

text \<open>\<open>loadConfig\<close>: the \<open>catch\<close> branch returns \<open>null\<close>.\<close>

definition loadConfig ::
  "(string \<Rightarrow> exn + json) \<Rightarrow> localStorage \<Rightarrow> exn + json option" where
  "loadConfig parse st =
     (case loadConfigTry parse st of
        Inl err \<Rightarrow> Inr (Some JNull)
      | Inr v \<Rightarrow> Inr v)"













section \<open>The Slideshow component (the second module of src/components/ExifOverlay.jsx)\<close>

text \<open>
  A pending \<open>setTimeout\<close> callback is a closure. \<open>goToNextPhoto\<close> creates one that
  captured \<open>next\<close> and \<open>photos.length\<close>, \<open>goToPreviousPhoto\<close> one that captured
  \<open>prev\<close> and \<open>photos.length\<close>.
\<close>

datatype timeout = NextTimeout nat nat | PrevTimeout nat nat

fun target :: "timeout \<Rightarrow> nat" where
  "target (NextTimeout t n) = t"
| "target (PrevTimeout t n) = t"

fun capturedLength :: "timeout \<Rightarrow> nat" where
  "capturedLength (NextTimeout t n) = n"
| "capturedLength (PrevTimeout t n) = n"

fun isPrevTimeout :: "timeout \<Rightarrow> bool" where
  "isPrevTimeout (NextTimeout t n) = False"
| "isPrevTimeout (PrevTimeout t n) = True"

text \<open>
  An \<open>extractExifData\<close> call that has not resolved yet. The call was made with
  \<open>photos[currentIndex]\<close> (\<open>None\<close> when that read is out of range); \<open>issuedFor\<close>
  remembers the value of \<open>currentIndex\<close> at that moment. The source keeps no such
  value: it is recorded here only so that a property can speak about it.
\<close>

record exifRequest =
  issuedFor :: nat
  requestUrl :: "string option"

text \<open>
  The component's state: its \<open>useState\<close> cells (the preload cache apart), the
  timeouts that are scheduled and have not fired, in the order they were scheduled (all
  have the same delay of 1000 ms, so they fire in that order), and the metadata requests
  in flight.
\<close>

record slideshow =
  photos :: "string list"
  currentIndex :: nat
  nextIndex :: nat
  isTransitioning :: bool
  exifData :: "MetadataRecord option"
  isLoading :: bool
  error :: "string option"
  isPaused :: bool
  timeouts :: "timeout list"
  exifRequests :: "exifRequest list"

text \<open>The initial values of the \<open>useState\<close> cells.\<close>

definition initialState :: slideshow where
  "initialState =
     \<lparr>photos = [], currentIndex = 0, nextIndex = 1, isTransitioning = False,
      exifData = None, isLoading = True, error = None, isPaused = False,
      timeouts = [], exifRequests = []\<rparr>"

text \<open>
  \<open>goToNextPhoto\<close>: returns at once on an empty list; otherwise sets the transition
  flag and \<open>nextIndex\<close>, and schedules the completion callback.
\<close>

definition goToNextPhoto :: "slideshow \<Rightarrow> slideshow" where
  "goToNextPhoto s =
     (if length (photos s) = 0 then s
      else
        let next = (currentIndex s + 1) mod length (photos s)
        in s\<lparr>isTransitioning := True, nextIndex := next,
               timeouts := timeouts s @ [NextTimeout next (length (photos s))]\<rparr>)"

text \<open>
  \<open>goToPreviousPhoto\<close>: returns at once on an empty list or while a transition is
  running.
\<close>

definition goToPreviousPhoto :: "slideshow \<Rightarrow> slideshow" where
  "goToPreviousPhoto s =
     (if length (photos s) = 0 \<or> isTransitioning s then s
      else
        let prev = (if currentIndex s = 0 then length (photos s) - 1 else currentIndex s - 1)
        in s\<lparr>isTransitioning := True, nextIndex := prev,
               timeouts := timeouts s @ [PrevTimeout prev (length (photos s))]\<rparr>)"

definition togglePause :: "slideshow \<Rightarrow> slideshow" where
  "togglePause s = s\<lparr>isPaused := \<not> isPaused s\<rparr>"

text \<open>
  The body of a scheduled callback:
  \<open>setCurrentIndex(t); setNextIndex((t + 1) % photos.length); setIsTransitioning(false)\<close>.
  The captured length is positive, since both schedulers return early on an empty list.
\<close>

definition runTimeout :: "timeout \<Rightarrow> slideshow \<Rightarrow> slideshow" where
  "runTimeout t s =
     s\<lparr>currentIndex := target t, nextIndex := (target t + 1) mod capturedLength t,
       isTransitioning := False\<rparr>"

text \<open>The oldest pending timeout fires (nothing happens when none is pending).\<close>

definition timeoutFired :: "slideshow \<Rightarrow> slideshow" where
  "timeoutFired s =
     (case timeouts s of
        [] \<Rightarrow> s
      | t # ts \<Rightarrow> runTimeout t (s\<lparr>timeouts := ts\<rparr>))"

text \<open>
  The auto-advance effect arms its interval only when the list is non-empty and the
  show is neither paused nor transitioning; a tick of the interval calls
  \<open>goToNextPhoto\<close>.
\<close>

definition intervalArmed :: "slideshow \<Rightarrow> bool" where
  "intervalArmed s = (\<not> (length (photos s) = 0 \<or> isPaused s \<or> isTransitioning s))"

definition intervalTick :: "slideshow \<Rightarrow> slideshow" where
  "intervalTick s = (if intervalArmed s then goToNextPhoto s else s)"

text \<open>
  The metadata effect: skipped on an empty list or when the overlay is disabled;
  otherwise \<open>loadExifData\<close> starts \<open>extractExifData(photos[currentIndex])\<close>.
\<close>

definition photoAt :: "string list \<Rightarrow> nat \<Rightarrow> string option" where
  "photoAt ps i = (if i < length ps then Some (ps ! i) else None)"

definition exifEffect :: "config \<Rightarrow> slideshow \<Rightarrow> slideshow" where
  "exifEffect cfg s =
     (if length (photos s) = 0 \<or> \<not> enabled (exifDisplay cfg) then s
      else s\<lparr>exifRequests := exifRequests s @
                 [\<lparr>issuedFor = currentIndex s,
                   requestUrl = photoAt (photos s) (currentIndex s)\<rparr>]\<rparr>)"

text \<open>
  The continuation of \<open>loadExifData\<close> after the \<open>await\<close>: \<open>setExifData(data)\<close>, or
  \<open>setExifData(null)\<close> in the \<open>catch\<close> branch.
\<close>

definition loadExifDataResumed ::
  "exn + MetadataRecord option \<Rightarrow> slideshow \<Rightarrow> slideshow" where
  "loadExifDataResumed res s =
     (case res of
        Inr data \<Rightarrow> s\<lparr>exifData := data\<rparr>
      | Inl err \<Rightarrow> s\<lparr>exifData := None\<rparr>)"

text \<open>The \<open>k\<close>-th request in flight resolves with \<open>res\<close>.\<close>

definition exifResolved ::
  "nat \<Rightarrow> exn + MetadataRecord option \<Rightarrow> slideshow \<Rightarrow> slideshow" where
  "exifResolved k res s =
     (if k < length (exifRequests s)
      then loadExifDataResumed res
             (s\<lparr>exifRequests := take k (exifRequests s) @ drop (Suc k) (exifRequests s)\<rparr>)
      else s)"

text \<open>
  The events a mounted slideshow reacts to. The key handler maps ArrowRight and
  MediaTrackNext to \<open>goToNextPhoto\<close>, ArrowLeft and MediaTrackPrevious to
  \<open>goToPreviousPhoto\<close>, and space, Enter and MediaPlayPause to \<open>togglePause\<close>.
\<close>

datatype event =
    KeyNext
  | KeyPrevious
  | KeyPause
  | IntervalTick
  | TimeoutFired
  | ExifResolved nat "exn + MetadataRecord option"

fun handle :: "event \<Rightarrow> slideshow \<Rightarrow> slideshow" where
  "handle KeyNext s = goToNextPhoto s"
| "handle KeyPrevious s = goToPreviousPhoto s"
| "handle KeyPause s = togglePause s"
| "handle IntervalTick s = intervalTick s"
| "handle TimeoutFired s = timeoutFired s"
| "handle (ExifResolved k res) s = exifResolved k res s"

text \<open>
  One event: the handler runs, and the metadata effect runs again when
  \<open>currentIndex\<close> has changed (the other dependencies of the effect, \<open>photos\<close> and the
  \<open>enabled\<close> flag, are fixed while the list stays loaded).
\<close>

definition step :: "config \<Rightarrow> slideshow \<Rightarrow> event \<Rightarrow> slideshow" where
  "step cfg s e =
     (let s' = handle e s
      in if currentIndex s' \<noteq> currentIndex s then exifEffect cfg s' else s')"

definition run :: "config \<Rightarrow> slideshow \<Rightarrow> event list \<Rightarrow> slideshow" where
  "run cfg s es = foldl (step cfg) s es"

text \<open>A state in which a list of photos has just been loaded.\<close>

definition loaded :: "config \<Rightarrow> string list \<Rightarrow> slideshow" where
  "loaded cfg ps = exifEffect cfg (initialState\<lparr>photos := ps, isLoading := False\<rparr>)"

text \<open>One "next" with its transition allowed to complete.\<close>

definition nextCompleted :: "slideshow \<Rightarrow> slideshow" where
  "nextCompleted s = timeoutFired (goToNextPhoto s)"

definition previousCompleted :: "slideshow \<Rightarrow> slideshow" where
  "previousCompleted s = timeoutFired (goToPreviousPhoto s)"

text \<open>A transition started by \<open>goToPreviousPhoto\<close> has not completed yet.\<close>

definition inPreviousWindow :: "slideshow \<Rightarrow> bool" where
  "inPreviousWindow s = (filter isPrevTimeout (timeouts s) \<noteq> [])"

subsection \<open>Loading and shuffling the photo list\<close>

text \<open>
  Arrays are mutable and shared in the source, so they live in a store: an array is
  named by its position in the list of all allocated arrays. The spread \<open>[...array]\<close>
  allocates a new array with the elements of the old one.
\<close>

type_synonym arrays = "string list list"

definition spread :: "arrays \<Rightarrow> nat \<Rightarrow> arrays \<times> nat" where
  "spread h a = (h @ [h ! a], length h)"

text \<open>
  \<open>Math.random()\<close> is stateful: the generator is the sequence of numbers it will
  return and the count of those already returned.
\<close>

record rng =
  draws :: "nat \<Rightarrow> real"
  used :: nat

definition random :: "rng \<Rightarrow> real \<times> rng" where
  "random g = (draws g (used g), g\<lparr>used := used g + 1\<rparr>)"

text \<open>
  \<open>[shuffled[i], shuffled[j]] = [shuffled[j], shuffled[i]]\<close> on the array at
  \<open>shuffled\<close>: both elements are read first, then \<open>shuffled[i]\<close> and
  \<open>shuffled[j]\<close> are written.
\<close>

definition swapInPlace :: "arrays \<Rightarrow> nat \<Rightarrow> nat \<Rightarrow> nat \<Rightarrow> arrays" where
  "swapInPlace h b i j = h[b := (h ! b)[i := h ! b ! j, j := h ! b ! i]]"

text \<open>
  The loop \<open>for (let i = shuffled.length - 1; i > 0; i--)\<close>, entered with the
  current value of \<open>i\<close>; \<open>j = Math.floor(Math.random() * (i + 1))\<close>.
\<close>

fun shuffleLoop :: "nat \<Rightarrow> nat \<Rightarrow> arrays \<times> rng \<Rightarrow> arrays \<times> rng" where
  "shuffleLoop shuffled 0 (h, g) = (h, g)"
| "shuffleLoop shuffled (Suc k) (h, g) =
     (let i = Suc k;
          (r, g') = random g;
          j = nat \<lfloor>r * real (i + 1)\<rfloor>
      in shuffleLoop shuffled k (swapInPlace h shuffled i j, g'))"

text \<open>\<open>shuffleArray\<close>: copies its argument, shuffles the copy, returns the copy.\<close>

definition shuffleArray :: "arrays \<times> rng \<Rightarrow> nat \<Rightarrow> (arrays \<times> rng) \<times> nat" where
  "shuffleArray hg array =
     (let (h1, shuffled) = spread (fst hg) array
      in (shuffleLoop shuffled (length (h1 ! shuffled) - 1) (h1, snd hg), shuffled))"

text \<open>
  \<open>loadPhotos\<close>. The outcomes of \<open>fetchMockPhotos()\<close> and of
  \<open>fetchPhotos(bucket, region, prefix)\<close> are parameters: a rejection, or the array
  of URLs that was returned.
\<close>

definition loadPhotos ::
  "config \<Rightarrow> exn + nat \<Rightarrow> exn + nat \<Rightarrow> arrays \<times> rng \<Rightarrow> slideshow
     \<Rightarrow> (arrays \<times> rng) \<times> slideshow" where
  "loadPhotos cfg mockResult s3Result hg s =
     (let s1 = s\<lparr>isLoading := True, error := None\<rparr>;
          fetched = (if \<not> truthyStr (s3Bucket cfg) then mockResult else s3Result)
      in case fetched of
           Inl err \<Rightarrow>
             (hg, s1\<lparr>error := Some (''Error loading photos: '' @ message err),
                      isLoading := False\<rparr>)
         | Inr photoList \<Rightarrow>
             if length (fst hg ! photoList) = 0
             then (hg, s1\<lparr>error := Some ''No photos found. Press MENU to configure S3 or add mock photos.'',
                           isLoading := False\<rparr>)
             else if shuffleMode cfg
             then
               (let (h1, copy) = spread (fst hg) photoList;
                    (hg2, finalPhotoList) = shuffleArray (h1, snd hg) copy
                in (hg2, s1\<lparr>photos := fst hg2 ! finalPhotoList, isLoading := False\<rparr>))
             else (hg, s1\<lparr>photos := fst hg ! photoList, isLoading := False\<rparr>))"

section \<open>Predicates used in the statements and proofs\<close>


text \<open>
  The reverse-geocoding lookup fails: the request is rejected, the response is not ok,
  or reading its body as JSON is rejected or gives \<open>null\<close>.
\<close>

definition lookupFails :: "world \<Rightarrow> real \<Rightarrow> real \<Rightarrow> bool" where
  "lookupFails w lat lon =
     (case fetchReverse w lat lon of
        Inl err \<Rightarrow> True
      | Inr response \<Rightarrow>
          \<not> ok response
          \<or> (case jsonResult response of
                Inl err \<Rightarrow> True
              | Inr None \<Rightarrow> True
              | Inr (Some data) \<Rightarrow> False))"

text \<open>Every draw of \<open>Math.random()\<close> lies in \<open>[0, 1)\<close>.\<close>

definition unitInterval :: "rng \<Rightarrow> bool" where
  "unitInterval g = (\<forall>n. 0 \<le> draws g n \<and> draws g n < 1)"

section \<open>Concrete inputs\<close>

definition exampleConfig :: config where
  "exampleConfig =
     \<lparr>s3Bucket = Some ''family-photos'', s3Region = Some ''us-east-1'',
      s3Prefix = Some ''photos/'', displayDuration = Some 10,
      transitionEffect = Some ''fade'', shuffleMode = False,
      exifDisplay = \<lparr>enabled = True, showDateTime = True, showLocation = True,
        showCameraInfo = False, position = ''bottom-left'', autoHide = False,
        autoHideDelay = 5\<rparr>\<rparr>"

definition exampleRecord :: MetadataRecord where
  "exampleRecord =
     \<lparr>dateTime = Some ''2024-05-01T10:00:00'', latitude = None, longitude = None,
      altitude = None, make' = Some ''Canon'', model = Some ''EOS R5'', lensModel = None,
      fNumber = None, exposureTime = None, iso = None, focalLength = None, width = None,
      height = None, orientation = None, locationName = LocAbsent\<rparr>"

definition threePhotos :: slideshow where
  "threePhotos = loaded exampleConfig [''a.jpg'', ''b.jpg'', ''c.jpg'']"

definition onePhoto :: slideshow where
  "onePhoto = loaded exampleConfig [''a.jpg'']"

definition exampleTags :: exifTags where
  "exampleTags =
     \<lparr>DateTimeOriginal = Some ''2024-05-01T10:00:00'', DateTime = None, CreateDate = None,
      tagLatitude = Some (48.8584), tagLongitude = Some (2.2945), GPSAltitude = None,
      Make = Some ''Canon '', Model = Some ''EOS R5'', LensModel = None,
      FNumber = Some 2.8, ExposureTime = Some (1 / 200), ISO = Some 100,
      FocalLength = Some 35, FocalLengthIn35mmFormat = None,
      ImageWidth = Some 8192, ImageHeight = Some 5464, Orientation = Some 1\<rparr>"

definition offlineWorld :: world where
  "offlineWorld =
     \<lparr>fetchBlob = (\<lambda>url. Inl (NetworkError ''Failed to fetch'')),
      exifrParse = (\<lambda>blob. Inr None),
      fetchReverse = (\<lambda>lat lon. Inl (NetworkError ''Failed to fetch'')),
      trim = (\<lambda>s. takeWhile (\<lambda>c. c \<noteq> CHR '' '') s),
      toFixed1 = (\<lambda>r. ''1.0''), roundedReciprocal = (\<lambda>r. 200),
      numberToString = (\<lambda>r. ''200'')\<rparr>"

definition geocoderDownWorld :: world where
  "geocoderDownWorld =
     \<lparr>fetchBlob = (\<lambda>url. Inr ''jpeg bytes''),
      exifrParse = (\<lambda>blob. Inr (Some exampleTags)),
      fetchReverse = (\<lambda>lat lon. Inr \<lparr>ok = False, jsonResult = Inr None\<rparr>),
      trim = (\<lambda>s. takeWhile (\<lambda>c. c \<noteq> CHR '' '') s),
      toFixed1 = (\<lambda>r. ''1.0''), roundedReciprocal = (\<lambda>r. 200),
      numberToString = (\<lambda>r. ''200'')\<rparr>"





definition equatorTags :: exifTags where
  "equatorTags = exampleTags\<lparr>tagLatitude := Some 0, tagLongitude := Some 10\<rparr>"

definition equatorWorld :: world where
  "equatorWorld = geocoderDownWorld\<lparr>exifrParse := (\<lambda>blob. Inr (Some equatorTags))\<rparr>"

definition exampleRng :: rng where
  "exampleRng = \<lparr>draws = (\<lambda>n. if n = 0 then 0 else 1 / 2), used = 0\<rparr>"

definition shuffleConfig :: config where
  "shuffleConfig = exampleConfig\<lparr>shuffleMode := True\<rparr>"

definition exampleArrays :: arrays where
  "exampleArrays = [[''a.jpg'', ''b.jpg'', ''c.jpg'']]"

definition oldBlob :: json where
  "oldBlob = JObj [(''version'', JStr ''0.9''), (''data'', JBool False)]"

definition legacyBlob :: json where
  "legacyBlob =
     JObj [(''version'', JStr ''0.9''), (''data'', JObj [(''s3Bucket'', JStr ''family-photos'')])]"

definition exampleStorage :: localStorage where
  "exampleStorage =
     \<lparr>items = [CONFIG_KEY \<mapsto> ''stored text''], denied = False, full = False\<rparr>"


section \<open>Playback: evaluation of the concrete inputs\<close>

lemmas playback_defs =
  loaded_def initialState_def exifEffect_def photoAt_def goToNextPhoto_def
  goToPreviousPhoto_def timeoutFired_def runTimeout_def step_def run_def
  inPreviousWindow_def nextCompleted_def previousCompleted_def togglePause_def
  intervalTick_def intervalArmed_def exifResolved_def loadExifDataResumed_def Let_def
  exampleConfig_def threePhotos_def onePhoto_def

lemma threePhotos_fields:
  "photos threePhotos = [''a.jpg'', ''b.jpg'', ''c.jpg'']"
  "currentIndex threePhotos = 0"
  "nextIndex threePhotos = 1"
  "\<not> isTransitioning threePhotos"
  "timeouts threePhotos = []"
  by (simp_all add: playback_defs)

lemma onePhoto_fields:
  "photos onePhoto = [''a.jpg'']"
  "currentIndex onePhoto = 0"
  "nextIndex onePhoto = 1"
  "\<not> isTransitioning onePhoto"
  "timeouts onePhoto = []"
  by (simp_all add: playback_defs)

section \<open>Re-entrant navigation\<close>

text \<open>
  C1. While \<open>isTransitioning\<close> is true, next and previous should both be no-ops, so
  that two transitions are never in flight. \<open>goToPreviousPhoto\<close> has the guard;
  \<open>goToNextPhoto\<close> does not. On the list of three photos, one "next" sets the flag and
  schedules one callback; a second "next" before that callback fires changes the state
  and leaves two callbacks pending, while "previous" in the same state changes nothing.
\<close>

theorem goToNextPhoto_reentrant:
  "isTransitioning (goToNextPhoto threePhotos)
   \<and> timeouts (goToNextPhoto threePhotos) = [NextTimeout 1 3]
   \<and> goToNextPhoto (goToNextPhoto threePhotos) \<noteq> goToNextPhoto threePhotos
   \<and> timeouts (goToNextPhoto (goToNextPhoto threePhotos)) = [NextTimeout 1 3, NextTimeout 1 3]
   \<and> goToPreviousPhoto (goToNextPhoto threePhotos) = goToNextPhoto threePhotos"
  by (simp add: playback_defs)

section \<open>Metadata results and the current index\<close>

text \<open>
  The claim C2 says that a metadata result for an index the show has left is dropped.
  It is not: on three photos the request issued for index 0 is still in flight after two
  completed "next" steps, and when it resolves its record becomes the overlay's data
  although \<open>currentIndex\<close> is 2.
\<close>

theorem stale_exif_result_applied:
  "currentIndex (run exampleConfig threePhotos [KeyNext, TimeoutFired, KeyNext, TimeoutFired]) = 2
   \<and> issuedFor (exifRequests
         (run exampleConfig threePhotos [KeyNext, TimeoutFired, KeyNext, TimeoutFired]) ! 0) = 0
   \<and> exifData (run exampleConfig threePhotos [KeyNext, TimeoutFired, KeyNext, TimeoutFired]) = None
   \<and> exifData (run exampleConfig threePhotos
         [KeyNext, TimeoutFired, KeyNext, TimeoutFired, ExifResolved 0 (Inr (Some exampleRecord))])
       = Some exampleRecord"
  by (simp add: playback_defs)

text \<open>
  C2, as amended. A metadata request that resolves is always applied: the overlay's
  data becomes the resolved record (or \<open>null\<close> when the call rejects), whatever
  \<open>currentIndex\<close> is by then and whatever index the request was issued for; resolving
  does not move \<open>currentIndex\<close>.
\<close>

theorem exifResolved_always_applied:
  assumes "k < length (exifRequests s)"
  shows "exifData (step cfg s (ExifResolved k (Inr d))) = d
       \<and> exifData (step cfg s (ExifResolved k (Inl e))) = None
       \<and> currentIndex (step cfg s (ExifResolved k res)) = currentIndex s"
  using assms
  by (cases res) (simp_all add: step_def exifResolved_def loadExifDataResumed_def)

theorem exifResolved_always_applied_witness:
  "0 < length (exifRequests threePhotos)
   \<and> exifData (step exampleConfig threePhotos (ExifResolved 0 (Inr (Some exampleRecord))))
       = Some exampleRecord
   \<and> exifData (step exampleConfig threePhotos (ExifResolved 0 (Inl (NetworkError ''Failed to fetch'')))) = None"
proof -
  have h: "0 < length (exifRequests threePhotos)"
    by (simp add: playback_defs)
  from exifResolved_always_applied [OF h, of exampleConfig "Some exampleRecord" "NetworkError ''Failed to fetch''"] h
  show ?thesis by simp
qed

section \<open>The successor invariant\<close>














section \<open>A full cycle of "next"\<close>

lemma nextCompleted_eq:
  assumes "photos s \<noteq> []" and "timeouts s = []"
  shows "nextCompleted s =
     s\<lparr>currentIndex := (currentIndex s + 1) mod length (photos s),
       nextIndex := ((currentIndex s + 1) mod length (photos s) + 1) mod length (photos s),
       isTransitioning := False, timeouts := []\<rparr>"
  using assms
  by (simp add: nextCompleted_def goToNextPhoto_def timeoutFired_def runTimeout_def Let_def)

lemma nextCompleted_iter:
  assumes "photos s \<noteq> []" and "timeouts s = []"
  shows "photos ((nextCompleted ^^ k) s) = photos s
       \<and> timeouts ((nextCompleted ^^ k) s) = []
       \<and> currentIndex ((nextCompleted ^^ k) s) = (currentIndex s + k) mod length (photos s)
       \<or> k = 0"
proof (induction k)
  case 0
  show ?case by simp
next
  case (Suc k)
  show ?case
  proof (cases "k = 0")
    case True
    then show ?thesis using assms by (simp add: nextCompleted_eq)
  next
    case False
    let ?t = "(nextCompleted ^^ k) s"
    from False Suc have ih: "photos ?t = photos s" "timeouts ?t = []"
      "currentIndex ?t = (currentIndex s + k) mod length (photos s)"
      by auto
    have ne: "photos ?t \<noteq> []"
      using ih assms by simp
    have "nextCompleted ?t =
       ?t\<lparr>currentIndex := (currentIndex ?t + 1) mod length (photos ?t),
          nextIndex := ((currentIndex ?t + 1) mod length (photos ?t) + 1) mod length (photos ?t),
          isTransitioning := False, timeouts := []\<rparr>"
      using nextCompleted_eq [OF ne ih(2)] .
    then show ?thesis using ih by (simp add: mod_Suc_eq)
  qed
qed

text \<open>
  C4. On a non-empty list of \<open>N\<close> photos, starting from any index of the list with
  no transition pending, \<open>N\<close> times "next" (each transition completing before the next
  one starts) brings \<open>currentIndex\<close> back to where it started.
\<close>

theorem next_cycle:
  assumes "photos s \<noteq> []" and "currentIndex s < length (photos s)" and "timeouts s = []"
  shows "currentIndex ((nextCompleted ^^ length (photos s)) s) = currentIndex s"
proof -
  have "length (photos s) \<noteq> 0"
    using assms(1) by simp
  with nextCompleted_iter [OF assms(1) assms(3), of "length (photos s)"]
  have "currentIndex ((nextCompleted ^^ length (photos s)) s)
          = (currentIndex s + length (photos s)) mod length (photos s)"
    by blast
  with assms(2) show ?thesis by simp
qed

theorem next_cycle_witness:
  "photos threePhotos \<noteq> []
   \<and> currentIndex threePhotos < length (photos threePhotos)
   \<and> timeouts threePhotos = []
   \<and> currentIndex ((nextCompleted ^^ length (photos threePhotos)) threePhotos)
       = currentIndex threePhotos"
proof -
  have h1: "photos threePhotos \<noteq> []"
    and h2: "currentIndex threePhotos < length (photos threePhotos)"
    and h3: "timeouts threePhotos = []"
    by (simp_all add: threePhotos_fields)
  from next_cycle [OF h1 h2 h3] h1 h2 h3 show ?thesis by simp
qed

section \<open>Lists of zero or one photo\<close>

text \<open>
  The claim C7 says that on a list of zero or one photo "next" and "previous" leave the
  playback state unchanged. On a list of one photo they do not: "next" raises the
  transition flag and moves \<open>nextIndex\<close> from 1 to 0, and "previous" raises the flag too.
\<close>

theorem single_photo_navigation_changes_state:
  "\<not> isTransitioning onePhoto
   \<and> isTransitioning (goToNextPhoto onePhoto)
   \<and> nextIndex onePhoto = 1
   \<and> nextIndex (goToNextPhoto onePhoto) = 0
   \<and> isTransitioning (goToPreviousPhoto onePhoto)"
  by (simp add: playback_defs)

text \<open>
  C7, as amended. On an empty list "next" and "previous" return the state unchanged
  (and nothing is thrown: neither function has a failing branch). On a list of one
  photo shown at index 0 with nothing pending, "next" starts a transition to index 0
  (flag raised, \<open>nextIndex\<close> 0, one callback scheduled); once completed, "next" and
  "previous" have left \<open>currentIndex\<close> at 0 and \<open>isPaused\<close> as it was.
\<close>

theorem navigation_short_list:
  "(length (photos s) = 0 \<longrightarrow> goToNextPhoto s = s \<and> goToPreviousPhoto s = s)
   \<and> (length (photos s) = 1 \<and> currentIndex s = 0 \<and> timeouts s = [] \<longrightarrow>
        isTransitioning (goToNextPhoto s)
        \<and> nextIndex (goToNextPhoto s) = 0
        \<and> timeouts (goToNextPhoto s) = [NextTimeout 0 1]
        \<and> currentIndex (nextCompleted s) = 0
        \<and> currentIndex (previousCompleted s) = 0
        \<and> isPaused (nextCompleted s) = isPaused s
        \<and> isPaused (previousCompleted s) = isPaused s)"
  by (auto simp add: nextCompleted_def previousCompleted_def goToNextPhoto_def
      goToPreviousPhoto_def timeoutFired_def runTimeout_def Let_def)

theorem navigation_short_list_witness:
  "length (photos initialState) = 0
   \<and> goToNextPhoto initialState = initialState
   \<and> goToPreviousPhoto initialState = initialState
   \<and> length (photos onePhoto) = 1 \<and> currentIndex onePhoto = 0 \<and> timeouts onePhoto = []
   \<and> isTransitioning (goToNextPhoto onePhoto)
   \<and> currentIndex (nextCompleted onePhoto) = 0
   \<and> currentIndex (previousCompleted onePhoto) = 0"
proof -
  have e: "length (photos initialState) = 0"
    by (simp add: initialState_def)
  have o: "length (photos onePhoto) = 1 \<and> currentIndex onePhoto = 0 \<and> timeouts onePhoto = []"
    by (simp add: onePhoto_fields)
  from navigation_short_list [of initialState] navigation_short_list [of onePhoto] e o
  show ?thesis by simp
qed

section \<open>Backward wrap-around\<close>

text \<open>
  C10. On a list of \<open>N \<ge> 2\<close> photos, "previous" at index 0 (no transition running or
  pending) targets the last photo: \<open>nextIndex\<close> and the scheduled callback hold
  \<open>N - 1\<close>, and once the callback has fired \<open>currentIndex = N - 1\<close> and
  \<open>nextIndex = 0\<close>.
\<close>

theorem previous_wraps:
  assumes "2 \<le> length (photos s)" and "currentIndex s = 0"
    and "\<not> isTransitioning s" and "timeouts s = []"
  shows "nextIndex (goToPreviousPhoto s) = length (photos s) - 1
       \<and> isTransitioning (goToPreviousPhoto s)
       \<and> timeouts (goToPreviousPhoto s)
           = [PrevTimeout (length (photos s) - 1) (length (photos s))]
       \<and> currentIndex (previousCompleted s) = length (photos s) - 1
       \<and> nextIndex (previousCompleted s) = 0
       \<and> \<not> isTransitioning (previousCompleted s)"
  using assms
  by (auto simp add: previousCompleted_def goToPreviousPhoto_def timeoutFired_def
      runTimeout_def Let_def)

theorem previous_wraps_witness:
  "length (photos threePhotos) = 3
   \<and> currentIndex threePhotos = 0
   \<and> \<not> isTransitioning threePhotos
   \<and> timeouts threePhotos = []
   \<and> nextIndex (goToPreviousPhoto threePhotos) = 2
   \<and> currentIndex (previousCompleted threePhotos) = 2
   \<and> nextIndex (previousCompleted threePhotos) = 0"
proof -
  have h1: "2 \<le> length (photos threePhotos)"
    and h2: "currentIndex threePhotos = 0"
    and h3: "\<not> isTransitioning threePhotos"
    and h4: "timeouts threePhotos = []"
    by (simp_all add: threePhotos_fields)
  from previous_wraps [OF h1 h2 h3 h4] h2 h3 h4 show ?thesis
    by (simp add: threePhotos_fields)
qed

section \<open>Shuffling at load time\<close>

lemma randomIndex_bound:
  assumes "0 \<le> r" and "r < 1"
  shows "nat \<lfloor>r * real (i + 1)\<rfloor> \<le> i"
proof -
  have "r * real (i + 1) < real (i + 1)"
    using assms by simp
  then have "\<lfloor>r * real (i + 1)\<rfloor> < int (i + 1)"
    by (simp add: floor_less_iff)
  then show ?thesis by simp
qed

lemma swapInPlace_props:
  assumes "b < length h" and "i < length (h ! b)" and "j < length (h ! b)"
  shows "length (swapInPlace h b i j) = length h"
    and "mset (swapInPlace h b i j ! b) = mset (h ! b)"
    and "length (swapInPlace h b i j ! b) = length (h ! b)"
    and "a \<noteq> b \<Longrightarrow> swapInPlace h b i j ! a = h ! a"
  using assms by (simp_all add: swapInPlace_def mset_swap)

lemma shuffleLoop_props:
  assumes "unitInterval g" and "b < length h" and "k < length (h ! b)"
  shows "length (fst (shuffleLoop b k (h, g))) = length h
       \<and> mset (fst (shuffleLoop b k (h, g)) ! b) = mset (h ! b)
       \<and> (\<forall>a. a \<noteq> b \<longrightarrow> fst (shuffleLoop b k (h, g)) ! a = h ! a)
       \<and> used (snd (shuffleLoop b k (h, g))) = used g + k
       \<and> draws (snd (shuffleLoop b k (h, g))) = draws g"
  using assms
proof (induction k arbitrary: h g)
  case 0
  then show ?case by simp
next
  case (Suc k)
  let ?j = "nat \<lfloor>draws g (used g) * real (Suc k + 1)\<rfloor>"
  let ?h = "swapInPlace h b (Suc k) ?j"
  let ?g = "g\<lparr>used := used g + 1\<rparr>"
  have "0 \<le> draws g (used g)" and "draws g (used g) < 1"
    using Suc.prems(1) by (simp_all add: unitInterval_def)
  then have "?j \<le> Suc k"
    by (rule randomIndex_bound)
  then have jl: "?j < length (h ! b)"
    using Suc.prems(3) by simp
  note sw = swapInPlace_props [OF Suc.prems(2) Suc.prems(3) jl]
  have g: "unitInterval ?g"
    using Suc.prems(1) by (simp add: unitInterval_def)
  have b: "b < length ?h"
    using sw(1) Suc.prems(2) by simp
  have k: "k < length (?h ! b)"
    using sw(3) Suc.prems(3) by simp
  have eq: "shuffleLoop b (Suc k) (h, g) = shuffleLoop b k (?h, ?g)"
    by (simp add: random_def Let_def)
  from Suc.IH [OF g b k] sw show ?case
    unfolding eq by simp
qed

lemma shuffleArray_props:
  assumes "unitInterval g" and "a < length h"
  shows "snd (shuffleArray (h, g) a) = length h
       \<and> length (fst (fst (shuffleArray (h, g) a))) = Suc (length h)
       \<and> mset (fst (fst (shuffleArray (h, g) a)) ! length h) = mset (h ! a)
       \<and> (\<forall>c < length h. fst (fst (shuffleArray (h, g) a)) ! c = h ! c)
       \<and> used (snd (fst (shuffleArray (h, g) a))) = used g + (length (h ! a) - 1)
       \<and> draws (snd (fst (shuffleArray (h, g) a))) = draws g"
proof (cases "h ! a = []")
  case True
  then show ?thesis
    using assms by (simp add: shuffleArray_def spread_def nth_append)
next
  case False
  let ?h1 = "h @ [h ! a]"
  have b: "length h < length ?h1"
    by simp
  have k: "length (h ! a) - 1 < length (?h1 ! length h)"
    using False by simp
  have eq: "shuffleArray (h, g) a
      = (shuffleLoop (length h) (length (h ! a) - 1) (?h1, g), length h)"
    by (simp add: shuffleArray_def spread_def)
  from shuffleLoop_props [OF assms(1) b k] show ?thesis
    unfolding eq by (auto simp add: nth_append)
qed

lemma photos_handle: "photos (handle e s) = photos s"
proof (cases e)
  case (ExifResolved k res)
  then show ?thesis
    by (cases res) (simp_all add: exifResolved_def loadExifDataResumed_def)
qed (simp_all add: goToNextPhoto_def goToPreviousPhoto_def togglePause_def intervalTick_def
      timeoutFired_def runTimeout_def Let_def split: list.splits)

lemma photos_step: "photos (step cfg s e) = photos s"
  by (simp add: step_def Let_def exifEffect_def photos_handle)

lemma photos_run: "photos (run cfg s es) = photos s"
  unfolding run_def by (induction es arbitrary: s) (simp_all add: photos_step)

lemma loadPhotos_shuffled:
  assumes "(if \<not> truthyStr (s3Bucket cfg) then mockResult else s3Result) = Inr photoList"
    and "h ! photoList \<noteq> []" and "shuffleMode cfg"
  shows "loadPhotos cfg mockResult s3Result (h, g) s =
     (fst (shuffleArray (h @ [h ! photoList], g) (length h)),
      s\<lparr>isLoading := True, error := None,
        photos := fst (fst (shuffleArray (h @ [h ! photoList], g) (length h)))
                    ! snd (shuffleArray (h @ [h ! photoList], g) (length h)),
        isLoading := False\<rparr>)"
  using assms by (simp add: loadPhotos_def spread_def Let_def split_beta)

lemma loadPhotos_plain:
  assumes "(if \<not> truthyStr (s3Bucket cfg) then mockResult else s3Result) = Inr photoList"
    and "h ! photoList \<noteq> []" and "\<not> shuffleMode cfg"
  shows "loadPhotos cfg mockResult s3Result (h, g) s =
     ((h, g),
      s\<lparr>isLoading := True, error := None, photos := h ! photoList, isLoading := False\<rparr>)"
  using assms by (simp add: loadPhotos_def Let_def)

text \<open>
  The state \<open>loaded\<close> is the one the component is in once \<open>loadPhotos\<close> has run on
  the freshly mounted component and the metadata effect has reacted to the new list.
\<close>

lemma loaded_after_loadPhotos:
  assumes "(if \<not> truthyStr (s3Bucket cfg) then mockResult else s3Result) = Inr photoList"
    and "h ! photoList \<noteq> []" and "\<not> shuffleMode cfg"
  shows "exifEffect cfg (snd (loadPhotos cfg mockResult s3Result (h, g) initialState))
       = loaded cfg (h ! photoList)"
  unfolding loadPhotos_plain [OF assms]
  by (simp add: loaded_def initialState_def)

text \<open>
  C5. Let the fetch return a non-empty array \<open>photoList\<close>, and let every draw of the
  random generator lie in \<open>[0, 1)\<close>. After \<open>loadPhotos\<close> the photos of the show have
  the same multiset of URLs as \<open>photoList\<close>; the array \<open>photoList\<close>, like every array
  that existed before, is unchanged. With \<open>shuffleMode\<close> on, the photos are a fresh
  array and the generator has been drawn from \<open>length - 1\<close> times, which is one pass of
  the shuffle; with \<open>shuffleMode\<close> off, they are \<open>photoList\<close> itself, and neither the
  store nor the generator has changed. No later event of the show changes the photos.
\<close>

theorem shuffle_once_permutation:
  assumes "unitInterval g" and "photoList < length h" and "h ! photoList \<noteq> []"
    and "(if \<not> truthyStr (s3Bucket cfg) then mockResult else s3Result) = Inr photoList"
  shows "let r = loadPhotos cfg mockResult s3Result (h, g) s;
             h' = fst (fst r); g' = snd (fst r); s' = snd r
         in mset (photos s') = mset (h ! photoList)
          \<and> h' ! photoList = h ! photoList
          \<and> (\<forall>a < length h. h' ! a = h ! a)
          \<and> (shuffleMode cfg \<longrightarrow>
               photos s' = h' ! Suc (length h)
               \<and> used g' = used g + (length (h ! photoList) - 1))
          \<and> (\<not> shuffleMode cfg \<longrightarrow> photos s' = h ! photoList \<and> h' = h \<and> g' = g)
          \<and> (\<forall>es. photos (run cfg s' es) = photos s')"
proof (cases "shuffleMode cfg")
  case True
  let ?h1 = "h @ [h ! photoList]"
  have a: "length h < length ?h1"
    by simp
  note sa = shuffleArray_props [OF assms(1) a]
  note lp = loadPhotos_shuffled [OF assms(4) assms(3) True, of g s]
  show ?thesis
    using sa assms(2) True unfolding lp Let_def
    by (auto simp add: photos_run nth_append)
next
  case False
  note lp = loadPhotos_plain [OF assms(4) assms(3) False, of g s]
  show ?thesis
    using False unfolding lp Let_def by (simp add: photos_run)
qed

lemma loadPhotos_example:
  "loadPhotos shuffleConfig (Inl (Error ''no mock photos'')) (Inr 0) (exampleArrays, exampleRng)
     initialState =
   (([[''a.jpg'', ''b.jpg'', ''c.jpg''], [''a.jpg'', ''b.jpg'', ''c.jpg''],
      [''c.jpg'', ''b.jpg'', ''a.jpg'']],
     exampleRng\<lparr>used := 2\<rparr>),
    initialState\<lparr>photos := [''c.jpg'', ''b.jpg'', ''a.jpg''], isLoading := False\<rparr>)"
  by (simp add: loadPhotos_def shuffleConfig_def exampleConfig_def exampleArrays_def
      exampleRng_def initialState_def truthyStr_def spread_def shuffleArray_def random_def
      swapInPlace_def Let_def numeral_2_eq_2)

theorem shuffle_once_permutation_witness:
  "unitInterval exampleRng \<and> 0 < length exampleArrays \<and> exampleArrays ! 0 \<noteq> []
   \<and> shuffleMode shuffleConfig
   \<and> photos (snd (loadPhotos shuffleConfig (Inl (Error ''no mock photos'')) (Inr 0)
         (exampleArrays, exampleRng) initialState))
        = [''c.jpg'', ''b.jpg'', ''a.jpg'']
   \<and> mset (photos (snd (loadPhotos shuffleConfig (Inl (Error ''no mock photos'')) (Inr 0)
         (exampleArrays, exampleRng) initialState)))
        = mset (exampleArrays ! 0)
   \<and> fst (fst (loadPhotos shuffleConfig (Inl (Error ''no mock photos'')) (Inr 0)
         (exampleArrays, exampleRng) initialState)) ! 0
        = exampleArrays ! 0
   \<and> used (snd (fst (loadPhotos shuffleConfig (Inl (Error ''no mock photos'')) (Inr 0)
         (exampleArrays, exampleRng) initialState))) = 2"
proof -
  have h1: "unitInterval exampleRng"
    by (simp add: unitInterval_def exampleRng_def)
  have h2: "0 < length exampleArrays" and h3: "exampleArrays ! 0 \<noteq> []"
    by (simp_all add: exampleArrays_def)
  have h4: "(if \<not> truthyStr (s3Bucket shuffleConfig) then Inl (Error ''no mock photos'')
             else Inr 0) = Inr 0"
    by (simp add: shuffleConfig_def exampleConfig_def truthyStr_def)
  have h5: "shuffleMode shuffleConfig"
    by (simp add: shuffleConfig_def)
  have n: "exampleArrays ! 0 = [''a.jpg'', ''b.jpg'', ''c.jpg'']"
    by (simp add: exampleArrays_def)
  from shuffle_once_permutation [OF h1 h2 h3 h4, of initialState] h1 h2 h3 h5
  show ?thesis
    by (simp add: Let_def loadPhotos_example n)
qed

section \<open>Validation and saving\<close>












section \<open>Loading and migrating the stored configuration\<close>

lemma getProp_not_null: "blob \<noteq> JNull \<Longrightarrow> \<exists>d. getProp blob k = Inr d"
  by (cases blob) simp_all

lemma migrateConfig_truthy:
  assumes "getProp blob ''data'' = Inr (Some v)" and "truthyJson (Some v)"
  shows "migrateConfig blob = Inr v"
  using assms by (simp add: migrateConfig_def)

lemma migrateConfig_falsy:
  assumes "getProp blob ''data'' = Inr d" and "\<not> truthyJson d"
  shows "migrateConfig blob = Inr blob"
  using assms by (cases d) (simp_all add: migrateConfig_def)

lemma migrateConfig_returns:
  assumes "blob \<noteq> JNull"
  shows "\<exists>m. migrateConfig blob = Inr m"
proof -
  from getProp_not_null [OF assms] obtain d where d: "getProp blob ''data'' = Inr d"
    by blast
  show ?thesis
  proof (cases "truthyJson d")
    case True
    then obtain v where "d = Some v"
      by (cases d) simp_all
    with d True show ?thesis
      by (auto dest: migrateConfig_truthy)
  next
    case False
    with d show ?thesis
      by (auto dest: migrateConfig_falsy)
  qed
qed

lemma loadConfig_returns: "\<exists>v. loadConfig parse st = Inr v"
  by (cases "loadConfigTry parse st") (simp_all add: loadConfig_def)

lemma loadConfig_migrates:
  assumes "\<not> denied st" and "items st CONFIG_KEY = Some stored" and "stored \<noteq> []"
    and "parse stored = Inr blob" and "getProp blob ''version'' = Inr v"
    and "v \<noteq> Some (JStr CONFIG_VERSION)" and "migrateConfig blob = Inr m"
  shows "loadConfig parse st = Inr (Some m)"
  using assms by (simp add: loadConfig_def loadConfigTry_def getItem_def)

text \<open>
  The claim C9 says that the migration returns the blob's \<open>data\<close> field when it is
  present. A stored blob of another version whose \<open>data\<close> field is present and
  \<open>false\<close> is returned whole, by \<open>migrateConfig\<close> and by \<open>loadConfig\<close>.
\<close>

theorem migrateConfig_falsy_data:
  "getProp oldBlob ''data'' = Inr (Some (JBool False))
   \<and> migrateConfig oldBlob = Inr oldBlob
   \<and> loadConfig (\<lambda>stored. Inr oldBlob) exampleStorage = Inr (Some oldBlob)"
  by (simp add: oldBlob_def migrateConfig_def loadConfig_def loadConfigTry_def getItem_def
      exampleStorage_def CONFIG_VERSION_def)

text \<open>
  C9, as amended. \<open>loadConfig\<close> never throws. It returns \<open>null\<close> when the store
  cannot be read, when nothing (or the empty text) is stored, when the stored text does
  not parse, and when it parses to \<open>null\<close>. On every parsed blob other than \<open>null\<close>
  the migration does not throw: it returns the blob's \<open>data\<close> field when that field is
  truthy, and the blob itself otherwise (also when \<open>data\<close> is present and falsy); and
  when the blob's version differs from the current one, \<open>loadConfig\<close> returns what the
  migration returns.
\<close>

theorem loadConfig_never_throws:
  "(\<exists>v. loadConfig parse st = Inr v)
   \<and> (denied st \<longrightarrow> loadConfig parse st = Inr (Some JNull))
   \<and> (\<not> truthyStr (items st CONFIG_KEY) \<longrightarrow> loadConfig parse st = Inr (Some JNull))
   \<and> (items st CONFIG_KEY = Some stored \<and> (\<exists>e. parse stored = Inl e) \<longrightarrow>
        loadConfig parse st = Inr (Some JNull))
   \<and> (items st CONFIG_KEY = Some stored \<and> parse stored = Inr JNull \<longrightarrow>
        loadConfig parse st = Inr (Some JNull))
   \<and> (blob \<noteq> JNull \<longrightarrow>
        (\<exists>d m. getProp blob ''data'' = Inr d
           \<and> migrateConfig blob = Inr m
           \<and> (truthyJson d \<longrightarrow> d = Some m)
           \<and> (\<not> truthyJson d \<longrightarrow> m = blob)
           \<and> (\<not> denied st \<and> items st CONFIG_KEY = Some stored \<and> stored \<noteq> []
                \<and> parse stored = Inr blob
                \<and> getProp blob ''version'' \<noteq> Inr (Some (JStr CONFIG_VERSION)) \<longrightarrow>
              loadConfig parse st = Inr (Some m))))"
proof -
  have a: "\<exists>v. loadConfig parse st = Inr v"
    by (rule loadConfig_returns)
  have b: "denied st \<longrightarrow> loadConfig parse st = Inr (Some JNull)"
    by (simp add: loadConfig_def loadConfigTry_def getItem_def)
  have c: "\<not> truthyStr (items st CONFIG_KEY) \<longrightarrow> loadConfig parse st = Inr (Some JNull)"
    by (simp add: loadConfig_def loadConfigTry_def getItem_def truthyStr_def
        split: option.splits)
  have d: "items st CONFIG_KEY = Some stored \<and> (\<exists>e. parse stored = Inl e) \<longrightarrow>
        loadConfig parse st = Inr (Some JNull)"
    by (auto simp add: loadConfig_def loadConfigTry_def getItem_def)
  have e: "items st CONFIG_KEY = Some stored \<and> parse stored = Inr JNull \<longrightarrow>
        loadConfig parse st = Inr (Some JNull)"
    by (auto simp add: loadConfig_def loadConfigTry_def getItem_def)
  have f: "blob \<noteq> JNull \<longrightarrow>
        (\<exists>d m. getProp blob ''data'' = Inr d
           \<and> migrateConfig blob = Inr m
           \<and> (truthyJson d \<longrightarrow> d = Some m)
           \<and> (\<not> truthyJson d \<longrightarrow> m = blob)
           \<and> (\<not> denied st \<and> items st CONFIG_KEY = Some stored \<and> stored \<noteq> []
                \<and> parse stored = Inr blob
                \<and> getProp blob ''version'' \<noteq> Inr (Some (JStr CONFIG_VERSION)) \<longrightarrow>
              loadConfig parse st = Inr (Some m)))"
  proof
    assume n: "blob \<noteq> JNull"
    from getProp_not_null [OF n] obtain d where d: "getProp blob ''data'' = Inr d"
      by blast
    from getProp_not_null [OF n] obtain v where v: "getProp blob ''version'' = Inr v"
      by blast
    from migrateConfig_returns [OF n] obtain m where m: "migrateConfig blob = Inr m"
      by blast
    have t: "truthyJson d \<longrightarrow> d = Some m"
    proof
      assume td: "truthyJson d"
      then obtain x where x: "d = Some x"
        by (cases d) simp_all
      with d td have "migrateConfig blob = Inr x"
        by (simp add: migrateConfig_truthy)
      with m x show "d = Some m"
        by simp
    qed
    have u: "\<not> truthyJson d \<longrightarrow> m = blob"
      using migrateConfig_falsy [OF d] m by auto
    have l: "\<not> denied st \<and> items st CONFIG_KEY = Some stored \<and> stored \<noteq> []
                \<and> parse stored = Inr blob
                \<and> getProp blob ''version'' \<noteq> Inr (Some (JStr CONFIG_VERSION)) \<longrightarrow>
              loadConfig parse st = Inr (Some m)"
      using v m loadConfig_migrates [of st stored parse blob v m] by auto
    from d m t u l show "\<exists>d m. getProp blob ''data'' = Inr d
           \<and> migrateConfig blob = Inr m
           \<and> (truthyJson d \<longrightarrow> d = Some m)
           \<and> (\<not> truthyJson d \<longrightarrow> m = blob)
           \<and> (\<not> denied st \<and> items st CONFIG_KEY = Some stored \<and> stored \<noteq> []
                \<and> parse stored = Inr blob
                \<and> getProp blob ''version'' \<noteq> Inr (Some (JStr CONFIG_VERSION)) \<longrightarrow>
              loadConfig parse st = Inr (Some m))"
      by blast
  qed
  from a b c d e f show ?thesis by blast
qed

theorem loadConfig_never_throws_witness:
  "denied (exampleStorage\<lparr>denied := True\<rparr>)
   \<and> loadConfig (\<lambda>stored. Inr legacyBlob) (exampleStorage\<lparr>denied := True\<rparr>) = Inr (Some JNull)
   \<and> \<not> truthyStr (items (exampleStorage\<lparr>items := Map.empty\<rparr>) CONFIG_KEY)
   \<and> loadConfig (\<lambda>stored. Inr legacyBlob) (exampleStorage\<lparr>items := Map.empty\<rparr>)
        = Inr (Some JNull)
   \<and> loadConfig (\<lambda>stored. Inl (SyntaxError ''Unexpected token'')) exampleStorage
        = Inr (Some JNull)
   \<and> loadConfig (\<lambda>stored. Inr JNull) exampleStorage = Inr (Some JNull)
   \<and> legacyBlob \<noteq> JNull
   \<and> migrateConfig legacyBlob = Inr (JObj [(''s3Bucket'', JStr ''family-photos'')])
   \<and> loadConfig (\<lambda>stored. Inr legacyBlob) exampleStorage
        = Inr (Some (JObj [(''s3Bucket'', JStr ''family-photos'')]))"
proof -
  let ?ok = "\<lambda>stored :: string. (Inr legacyBlob :: exn + json)"
  let ?bad = "\<lambda>stored :: string. (Inl (SyntaxError ''Unexpected token'') :: exn + json)"
  let ?null = "\<lambda>stored :: string. (Inr JNull :: exn + json)"
  have s: "items exampleStorage CONFIG_KEY = Some ''stored text''" "\<not> denied exampleStorage"
    by (simp_all add: exampleStorage_def)
  have g: "getProp legacyBlob ''data'' = Inr (Some (JObj [(''s3Bucket'', JStr ''family-photos'')]))"
    "getProp legacyBlob ''version'' = Inr (Some (JStr ''0.9''))" "legacyBlob \<noteq> JNull"
    by (simp_all add: legacyBlob_def)
  have w1: "loadConfig ?ok (exampleStorage\<lparr>denied := True\<rparr>) = Inr (Some JNull)"
    using loadConfig_never_throws [of ?ok "exampleStorage\<lparr>denied := True\<rparr>"] by simp
  have w2: "loadConfig ?ok (exampleStorage\<lparr>items := Map.empty\<rparr>) = Inr (Some JNull)"
    using loadConfig_never_throws [of ?ok "exampleStorage\<lparr>items := Map.empty\<rparr>"]
    by (simp add: truthyStr_def)
  have w3: "loadConfig ?bad exampleStorage = Inr (Some JNull)"
    using loadConfig_never_throws [of ?bad exampleStorage "''stored text''"] s by simp
  have w4: "loadConfig ?null exampleStorage = Inr (Some JNull)"
    using loadConfig_never_throws [of ?null exampleStorage "''stored text''"] s by simp
  have w5: "migrateConfig legacyBlob = Inr (JObj [(''s3Bucket'', JStr ''family-photos'')])
      \<and> loadConfig ?ok exampleStorage
          = Inr (Some (JObj [(''s3Bucket'', JStr ''family-photos'')]))"
    using loadConfig_never_throws [of ?ok exampleStorage "''stored text''" legacyBlob] s g
    by (auto simp add: CONFIG_VERSION_def)
  from w1 w2 w3 w4 w5 g(3) show ?thesis
    by (simp add: truthyStr_def)
qed

section \<open>Metadata extraction never throws\<close>

lemma getLocationName_returns: "\<exists>n. getLocationName w lat lon = Inr n"
  by (cases "getLocationNameTry w lat lon") (simp_all add: getLocationName_def)

lemma lookupFails_null:
  assumes "lookupFails w lat lon"
  shows "getLocationName w lat lon = Inr None"
proof (cases "fetchReverse w lat lon")
  case (Inl e)
  then show ?thesis
    by (simp add: getLocationName_def getLocationNameTry_def)
next
  case (Inr response)
  show ?thesis
  proof (cases "ok response")
    case False
    with Inr show ?thesis
      by (simp add: getLocationName_def getLocationNameTry_def)
  next
    case True
    with Inr assms have "\<exists>e. jsonResult response = Inl e \<or> jsonResult response = Inr None"
      by (auto simp add: lookupFails_def split: sum.splits option.splits)
    with Inr True show ?thesis
      by (auto simp add: getLocationName_def getLocationNameTry_def)
  qed
qed

lemma extractExifData_returns: "\<exists>r. extractExifData w url = Inr r"
  by (cases "extractExifDataTry w url") (simp_all add: extractExifData_def)

lemma extract_fetch_fails:
  "fetchBlob w url = Inl e \<Longrightarrow> extractExifData w url = Inr None"
  by (simp add: extractExifData_def extractExifDataTry_def)

lemma extract_parse_fails:
  "fetchBlob w url = Inr blob \<Longrightarrow> exifrParse w blob = Inl e
     \<Longrightarrow> extractExifData w url = Inr None"
  by (simp add: extractExifData_def extractExifDataTry_def)

lemma extract_no_metadata:
  "fetchBlob w url = Inr blob \<Longrightarrow> exifrParse w blob = Inr None
     \<Longrightarrow> extractExifData w url = Inr None"
  by (simp add: extractExifData_def extractExifDataTry_def)

lemma formatted_gps:
  assumes "tagLatitude exif = Some lat" and "lat \<noteq> 0"
    and "tagLongitude exif = Some lon" and "lon \<noteq> 0"
  shows "latitude (formatted w exif) = Some lat" and "longitude (formatted w exif) = Some lon"
  using assms by (simp_all add: formatted_def orNullNum_def truthyNum_def)

lemma extract_lookup_fails:
  assumes "fetchBlob w url = Inr blob" and "exifrParse w blob = Inr (Some exif)"
    and "tagLatitude exif = Some lat" and "lat \<noteq> 0"
    and "tagLongitude exif = Some lon" and "lon \<noteq> 0"
    and "lookupFails w lat lon"
  shows "extractExifData w url = Inr (Some ((formatted w exif)\<lparr>locationName := LocNull\<rparr>))"
  using assms(1,2,4,6) formatted_gps [OF assms(3-6), of w] lookupFails_null [OF assms(7)]
  by (simp add: extractExifData_def extractExifDataTry_def Let_def toLocationField_def)

text \<open>
  The claim C8 says that whenever GPS coordinates are present and the lookup fails, the
  record has \<open>locationName\<close> \<open>null\<close> and keeps both coordinates. For a photo taken on
  the equator (latitude 0, longitude 10) with the geocoding service down, the record
  returned has \<open>latitude\<close> \<open>null\<close> and no \<open>locationName\<close> property at all.
\<close>

theorem zero_latitude_not_kept:
  "tagLatitude equatorTags = Some 0
   \<and> tagLongitude equatorTags = Some 10
   \<and> lookupFails equatorWorld 0 10
   \<and> (case extractExifData equatorWorld ''https://example.org/a.jpg'' of
         Inr (Some r) \<Rightarrow>
           latitude r = None \<and> longitude r = Some 10 \<and> locationName r = LocAbsent
       | _ \<Rightarrow> False)"
  by (simp add: equatorTags_def equatorWorld_def geocoderDownWorld_def lookupFails_def
      extractExifData_def extractExifDataTry_def formatted_def orNullNum_def truthyNum_def
      Let_def)

text \<open>
  C8, as amended. \<open>extractExifData\<close> always returns (a record or \<open>null\<close>) and
  never throws. It returns \<open>null\<close> when fetching the image fails, when parsing throws,
  and when the parser finds no metadata. When both parsed coordinates are present and
  different from zero and the reverse-geocoding lookup fails (the request is rejected,
  the response is not ok, or its body cannot be read), a record is returned whose
  \<open>locationName\<close> is \<open>null\<close> and whose \<open>latitude\<close> and \<open>longitude\<close> are the
  parsed coordinates. \<open>getLocationName\<close> itself never throws.
\<close>

theorem extractExifData_never_throws:
  "(\<exists>r. extractExifData w url = Inr r)
   \<and> ((\<exists>e. fetchBlob w url = Inl e) \<longrightarrow> extractExifData w url = Inr None)
   \<and> (fetchBlob w url = Inr blob \<and> (\<exists>e. exifrParse w blob = Inl e) \<longrightarrow>
        extractExifData w url = Inr None)
   \<and> (fetchBlob w url = Inr blob \<and> exifrParse w blob = Inr None \<longrightarrow>
        extractExifData w url = Inr None)
   \<and> (fetchBlob w url = Inr blob \<and> exifrParse w blob = Inr (Some exif)
        \<and> tagLatitude exif = Some lat \<and> lat \<noteq> 0
        \<and> tagLongitude exif = Some lon \<and> lon \<noteq> 0
        \<and> lookupFails w lat lon \<longrightarrow>
        (\<exists>r. extractExifData w url = Inr (Some r)
           \<and> locationName r = LocNull
           \<and> latitude r = Some lat
           \<and> longitude r = Some lon))
   \<and> (\<exists>n. getLocationName w lat lon = Inr n)"
proof -
  have a: "\<exists>r. extractExifData w url = Inr r"
    by (rule extractExifData_returns)
  have b: "(\<exists>e. fetchBlob w url = Inl e) \<longrightarrow> extractExifData w url = Inr None"
    by (auto dest: extract_fetch_fails)
  have c: "fetchBlob w url = Inr blob \<and> (\<exists>e. exifrParse w blob = Inl e) \<longrightarrow>
        extractExifData w url = Inr None"
    by (auto dest: extract_parse_fails)
  have d: "fetchBlob w url = Inr blob \<and> exifrParse w blob = Inr None \<longrightarrow>
        extractExifData w url = Inr None"
    by (auto dest: extract_no_metadata)
  have e: "fetchBlob w url = Inr blob \<and> exifrParse w blob = Inr (Some exif)
        \<and> tagLatitude exif = Some lat \<and> lat \<noteq> 0
        \<and> tagLongitude exif = Some lon \<and> lon \<noteq> 0
        \<and> lookupFails w lat lon \<longrightarrow>
        (\<exists>r. extractExifData w url = Inr (Some r)
           \<and> locationName r = LocNull
           \<and> latitude r = Some lat
           \<and> longitude r = Some lon)"
  proof
    assume h: "fetchBlob w url = Inr blob \<and> exifrParse w blob = Inr (Some exif)
        \<and> tagLatitude exif = Some lat \<and> lat \<noteq> 0
        \<and> tagLongitude exif = Some lon \<and> lon \<noteq> 0
        \<and> lookupFails w lat lon"
    then have x: "extractExifData w url
        = Inr (Some ((formatted w exif)\<lparr>locationName := LocNull\<rparr>))"
      by (auto intro: extract_lookup_fails)
    from h have "latitude (formatted w exif) = Some lat"
      and "longitude (formatted w exif) = Some lon"
      by (simp_all add: formatted_gps)
    with x show "\<exists>r. extractExifData w url = Inr (Some r)
           \<and> locationName r = LocNull
           \<and> latitude r = Some lat
           \<and> longitude r = Some lon"
      by simp
  qed
  have f: "\<exists>n. getLocationName w lat lon = Inr n"
    by (rule getLocationName_returns)
  from a b c d e f show ?thesis by blast
qed

theorem extractExifData_never_throws_witness:
  "fetchBlob offlineWorld ''https://example.org/a.jpg'' = Inl (NetworkError ''Failed to fetch'')
   \<and> extractExifData offlineWorld ''https://example.org/a.jpg'' = Inr None
   \<and> extractExifData (geocoderDownWorld\<lparr>exifrParse := (\<lambda>blob. Inl (Error ''Unknown file format''))\<rparr>)
        ''https://example.org/a.jpg'' = Inr None
   \<and> extractExifData (geocoderDownWorld\<lparr>exifrParse := (\<lambda>blob. Inr None)\<rparr>)
        ''https://example.org/a.jpg'' = Inr None
   \<and> lookupFails geocoderDownWorld (48.8584) (2.2945)
   \<and> (\<exists>r. extractExifData geocoderDownWorld ''https://example.org/a.jpg'' = Inr (Some r)
         \<and> locationName r = LocNull
         \<and> latitude r = Some (48.8584)
         \<and> longitude r = Some (2.2945))"
proof -
  let ?url = "''https://example.org/a.jpg''"
  let ?w1 = "geocoderDownWorld\<lparr>exifrParse := (\<lambda>blob. Inl (Error ''Unknown file format''))\<rparr>"
  let ?w2 = "geocoderDownWorld\<lparr>exifrParse := (\<lambda>blob. Inr None)\<rparr>"
  have o: "fetchBlob offlineWorld ?url = Inl (NetworkError ''Failed to fetch'')"
    by (simp add: offlineWorld_def)
  have g: "fetchBlob geocoderDownWorld ?url = Inr ''jpeg bytes''"
    "exifrParse geocoderDownWorld ''jpeg bytes'' = Inr (Some exampleTags)"
    "lookupFails geocoderDownWorld (48.8584) (2.2945)"
    by (simp_all add: geocoderDownWorld_def lookupFails_def)
  have t: "tagLatitude exampleTags = Some (48.8584)" "tagLongitude exampleTags = Some (2.2945)"
    by (simp_all add: exampleTags_def)
  have w1: "extractExifData offlineWorld ?url = Inr None"
    using extractExifData_never_throws [of offlineWorld ?url] o by simp
  have w2: "extractExifData ?w1 ?url = Inr None"
    using extractExifData_never_throws [of ?w1 ?url "''jpeg bytes''"] g(1)
    by (simp add: geocoderDownWorld_def)
  have w3: "extractExifData ?w2 ?url = Inr None"
    using extractExifData_never_throws [of ?w2 ?url "''jpeg bytes''"] g(1)
    by (simp add: geocoderDownWorld_def)
  have w4: "\<exists>r. extractExifData geocoderDownWorld ?url = Inr (Some r)
         \<and> locationName r = LocNull
         \<and> latitude r = Some (48.8584)
         \<and> longitude r = Some (2.2945)"
    using extractExifData_never_throws
            [of geocoderDownWorld ?url "''jpeg bytes''" exampleTags "48.8584" "2.2945"] g t
    by simp
  from o w1 w2 w3 w4 g(3) show ?thesis
    by simp
qed

end
